theory Spec2Isabelle
  imports Complex_Main "HOL-Library.AList"
begin

section \<open>The JavaScript values the resource manager handles\<close>

text \<open>
  \<^verbatim>\<open>src/routes/Books.js\<close> stores the JSON payload of a request as a book and reads its
  properties back with the operators of JavaScript. This section models the part of
  the language those operators need.

  A value is \<^verbatim>\<open>undefined\<close> (what reading an absent property gives) or a JSON value.
  Numbers are integers: for them, below \<open>2 ^ 53\<close> in magnitude, the arithmetic of
  doubles is exact and \<^verbatim>\<open>String\<close> prints the decimal numeral; a numeric string converts
  to its exact rational value, so the rounding of IEEE doubles is outside the model.
  Strings are lists of 8-bit characters read as ASCII: \<^verbatim>\<open>toLowerCase\<close> and the white space
  of \<^verbatim>\<open>ToNumber\<close> treat the ASCII range only. An object is the list of its own
  properties in creation order (the rule that puts integer-like keys first is not
  modelled; no result below depends on the order of an object's keys); properties
  inherited from \<^verbatim>\<open>Object.prototype\<close> (\<^verbatim>\<open>toString\<close>, \<^verbatim>\<open>constructor\<close>, ...) are outside
  the model.
\<close>

datatype jsval =
    JUndefined
  | JNull
  | JBool bool
  | JNum int
  | JStr string
  | JArr "jsval list"
  | JObj "(string \<times> jsval) list"

type_synonym obj = "(string \<times> jsval) list"

subsection \<open>Property access\<close>

text \<open>\<^verbatim>\<open>o[k]\<close> for an own property, \<^verbatim>\<open>undefined\<close> when there is none.\<close>

definition get :: "(string \<times> jsval) list \<Rightarrow> string \<Rightarrow> jsval" where
  "get ob k = (case map_of ob k of None \<Rightarrow> JUndefined | Some v \<Rightarrow> v)"

text \<open>
  \<^verbatim>\<open>Object.entries(o)\<close>, \<^verbatim>\<open>Object.keys(o)\<close> and \<^verbatim>\<open>Object.values(o)\<close>: every own
  property once, in creation order. A list that names a key twice stands for the object
  its first entry for that key describes, as \<open>get\<close> reads it.
\<close>

definition entries :: "(string \<times> 'v) list \<Rightarrow> (string \<times> 'v) list" where
  "entries ob = AList.clearjunk ob"

definition keys :: "(string \<times> 'v) list \<Rightarrow> string list" where
  "keys ob = map fst (entries ob)"

definition values_of :: "(string \<times> 'v) list \<Rightarrow> 'v list" where
  "values_of ob = map snd (entries ob)"

text \<open>\<^verbatim>\<open>o.hasOwnProperty(k)\<close>.\<close>

definition hasOwnProperty :: "(string \<times> 'v) list \<Rightarrow> string \<Rightarrow> bool" where
  "hasOwnProperty ob k = (map_of ob k \<noteq> None)"

text \<open>
  The spread \<^verbatim>\<open>{...tgt, ...src}\<close>: each own property of \<open>src\<close> is defined on the object
  built so far, in the order of \<open>src\<close>; a key that is there already keeps its place and
  takes the new value.
\<close>

definition spread :: "obj \<Rightarrow> obj \<Rightarrow> obj" where
  "spread src tgt = fold (\<lambda>p. AList.update (fst p) (snd p)) (entries src) tgt"

subsection \<open>typeof, ToBoolean, ToString\<close>

fun js_typeof :: "jsval \<Rightarrow> string" where
  "js_typeof JUndefined = ''undefined''"
| "js_typeof JNull = ''object''"
| "js_typeof (JBool b) = ''boolean''"
| "js_typeof (JNum n) = ''number''"
| "js_typeof (JStr s) = ''string''"
| "js_typeof (JArr xs) = ''object''"
| "js_typeof (JObj ob) = ''object''"

text \<open>\<^verbatim>\<open>!!v\<close>; \<^verbatim>\<open>!v\<close> is its negation.\<close>

fun js_truthy :: "jsval \<Rightarrow> bool" where
  "js_truthy JUndefined = False"
| "js_truthy JNull = False"
| "js_truthy (JBool b) = b"
| "js_truthy (JNum n) = (n \<noteq> 0)"
| "js_truthy (JStr s) = (s \<noteq> [])"
| "js_truthy (JArr xs) = True"
| "js_truthy (JObj ob) = True"

fun show_nat :: "nat \<Rightarrow> string" where
  "show_nat n =
     (if n < 10 then [''0123456789'' ! n]
      else show_nat (n div 10) @ [''0123456789'' ! (n mod 10)])"

declare show_nat.simps [simp del]

definition show_int :: "int \<Rightarrow> string" where
  "show_int i = (if i < 0 then CHR ''-'' # show_nat (nat (- i)) else show_nat (nat i))"

definition show_bool :: "bool \<Rightarrow> string" where
  "show_bool b = (if b then ''true'' else ''false'')"

text \<open>
  \<^verbatim>\<open>String(v)\<close>. An array prints its elements separated by commas, \<^verbatim>\<open>null\<close> and
  \<^verbatim>\<open>undefined\<close> elements as the empty string; an object prints as
  \<^verbatim>\<open>[object Object]\<close>.
\<close>

fun js_String :: "jsval \<Rightarrow> string"
  and js_join :: "jsval list \<Rightarrow> string"
  and js_element :: "jsval \<Rightarrow> string" where
  "js_String JUndefined = ''undefined''"
| "js_String JNull = ''null''"
| "js_String (JBool b) = show_bool b"
| "js_String (JNum n) = show_int n"
| "js_String (JStr s) = s"
| "js_String (JArr xs) = js_join xs"
| "js_String (JObj ob) = ''[object Object]''"
| "js_join [] = []"
| "js_join [x] = js_element x"
| "js_join (x # y # ys) = js_element x @ '','' @ js_join (y # ys)"
| "js_element JUndefined = []"
| "js_element JNull = []"
| "js_element (JBool b) = js_String (JBool b)"
| "js_element (JNum n) = js_String (JNum n)"
| "js_element (JStr s) = js_String (JStr s)"
| "js_element (JArr xs) = js_String (JArr xs)"
| "js_element (JObj ob) = js_String (JObj ob)"

subsection \<open>toLowerCase and includes\<close>

definition js_toLowerCase :: "string \<Rightarrow> string" where
  "js_toLowerCase s =
     map (\<lambda>c. case map_of (zip ''ABCDEFGHIJKLMNOPQRSTUVWXYZ'' ''abcdefghijklmnopqrstuvwxyz'') c of
                 None \<Rightarrow> c | Some l \<Rightarrow> l) s"

fun starts_with :: "string \<Rightarrow> string \<Rightarrow> bool" where
  "starts_with s [] = True"
| "starts_with [] (c # cs) = False"
| "starts_with (d # ds) (c # cs) = (d = c \<and> starts_with ds cs)"

text \<open>\<^verbatim>\<open>s.includes(t)\<close>: \<open>t\<close> occurs in \<open>s\<close> as a contiguous substring.\<close>

fun js_includes :: "string \<Rightarrow> string \<Rightarrow> bool" where
  "js_includes [] t = (t = [])"
| "js_includes (d # ds) t = (starts_with (d # ds) t \<or> js_includes ds t)"

subsection \<open>ToNumber and the comparison operators\<close>

datatype jsnum = NaN | Fin rat | PosInf | NegInf

definition is_space :: "char \<Rightarrow> bool" where
  "is_space c = (c \<in> set [CHR 0x09, CHR 0x0A, CHR 0x0B, CHR 0x0C, CHR 0x0D, CHR 0x20])"

definition trim :: "string \<Rightarrow> string" where
  "trim s = rev (dropWhile is_space (rev (dropWhile is_space s)))"

definition digit_value :: "char \<Rightarrow> nat option" where
  "digit_value c =
     map_of (zip ''0123456789abcdefABCDEF''
               [0, 1, 2, 3, 4, 5, 6, 7, 8, 9, 10, 11, 12, 13, 14, 15, 10, 11, 12, 13, 14, 15]) c"

definition is_digit :: "nat \<Rightarrow> char \<Rightarrow> bool" where
  "is_digit base c = (case digit_value c of None \<Rightarrow> False | Some d \<Rightarrow> d < base)"

text \<open>The number a non-empty string of digits of the base denotes.\<close>

definition digits_value :: "nat \<Rightarrow> string \<Rightarrow> nat option" where
  "digits_value base s =
     (if s \<noteq> [] \<and> list_all (is_digit base) s
      then Some (fold (\<lambda>c acc. acc * base + (case digit_value c of None \<Rightarrow> 0 | Some d \<Rightarrow> d)) s 0)
      else None)"

text \<open>The exponent part \<^verbatim>\<open>e\<close>, \<^verbatim>\<open>E\<close> with an optional sign and digits; none is \<open>0\<close>.\<close>

definition exponent_part :: "string \<Rightarrow> int option" where
  "exponent_part s =
     (case s of
        [] \<Rightarrow> Some 0
      | c # t \<Rightarrow>
          if c = CHR ''e'' \<or> c = CHR ''E'' then
            (case t of
               [] \<Rightarrow> None
             | d # u \<Rightarrow>
                 if d = CHR ''-'' then map_option (\<lambda>n. - int n) (digits_value 10 u)
                 else if d = CHR ''+'' then map_option int (digits_value 10 u)
                 else map_option int (digits_value 10 t))
          else None)"

definition scale10 :: "nat \<Rightarrow> int \<Rightarrow> rat" where
  "scale10 m e = (if 0 \<le> e then of_nat m * 10 ^ nat e else of_nat m / 10 ^ nat (- e))"

text \<open>
  \<^verbatim>\<open>StrUnsignedDecimalLiteral\<close>: \<^verbatim>\<open>Infinity\<close>, or digits with an optional fraction and
  exponent, where the digits before or after the point may be missing but not both.
\<close>

definition unsigned_decimal :: "string \<Rightarrow> jsnum" where
  "unsigned_decimal s =
     (if s = ''Infinity'' then PosInf
      else
        let ip = takeWhile (is_digit 10) s;
            r = dropWhile (is_digit 10) s;
            fp = (case r of [] \<Rightarrow> [] | c # t \<Rightarrow> if c = CHR ''.'' then takeWhile (is_digit 10) t else []);
            r' = (case r of [] \<Rightarrow> [] | c # t \<Rightarrow> if c = CHR ''.'' then dropWhile (is_digit 10) t else r)
        in case (digits_value 10 (ip @ fp), exponent_part r') of
             (Some m, Some e) \<Rightarrow> Fin (scale10 m (e - int (length fp)))
           | _ \<Rightarrow> NaN)"

definition negate :: "jsnum \<Rightarrow> jsnum" where
  "negate x = (case x of NaN \<Rightarrow> NaN | Fin q \<Rightarrow> Fin (- q) | PosInf \<Rightarrow> NegInf | NegInf \<Rightarrow> PosInf)"

definition non_decimal :: "nat \<Rightarrow> string \<Rightarrow> jsnum" where
  "non_decimal base s = (case digits_value base s of None \<Rightarrow> NaN | Some n \<Rightarrow> Fin (of_nat n))"

text \<open>\<^verbatim>\<open>+s\<close> for a string: white space is trimmed, and the empty string is \<open>0\<close>.\<close>

definition string_to_number :: "string \<Rightarrow> jsnum" where
  "string_to_number s =
     (case trim s of
        [] \<Rightarrow> Fin 0
      | c # t \<Rightarrow>
          if c = CHR ''-'' then negate (unsigned_decimal t)
          else if c = CHR ''+'' then unsigned_decimal t
          else if c = CHR ''0'' \<and> t \<noteq> [] \<and> hd t \<in> set ''xX'' then non_decimal 16 (tl t)
          else if c = CHR ''0'' \<and> t \<noteq> [] \<and> hd t \<in> set ''oO'' then non_decimal 8 (tl t)
          else if c = CHR ''0'' \<and> t \<noteq> [] \<and> hd t \<in> set ''bB'' then non_decimal 2 (tl t)
          else unsigned_decimal (c # t))"

definition js_isNaN :: "jsnum \<Rightarrow> bool" where
  "js_isNaN x = (x = NaN)"

text \<open>\<^verbatim>\<open>!!x\<close> for a number: false for \<open>0\<close> and \<^verbatim>\<open>NaN\<close>.\<close>

definition num_truthy :: "jsnum \<Rightarrow> bool" where
  "num_truthy x = (case x of NaN \<Rightarrow> False | Fin q \<Rightarrow> q \<noteq> 0 | PosInf \<Rightarrow> True | NegInf \<Rightarrow> True)"

text \<open>\<^verbatim>\<open>ToPrimitive\<close>: an array or an object becomes its string.\<close>

definition js_ToPrimitive :: "jsval \<Rightarrow> jsval" where
  "js_ToPrimitive v =
     (case v of JArr xs \<Rightarrow> JStr (js_String v) | JObj ob \<Rightarrow> JStr (js_String v) | _ \<Rightarrow> v)"

definition js_ToNumber :: "jsval \<Rightarrow> jsnum" where
  "js_ToNumber v =
     (case js_ToPrimitive v of
        JUndefined \<Rightarrow> NaN
      | JNull \<Rightarrow> Fin 0
      | JBool b \<Rightarrow> Fin (if b then 1 else 0)
      | JNum n \<Rightarrow> Fin (of_int n)
      | JStr s \<Rightarrow> string_to_number s
      | _ \<Rightarrow> NaN)"

text \<open>Strings compare by their code units, a proper prefix being smaller.\<close>

fun str_lt :: "string \<Rightarrow> string \<Rightarrow> bool" where
  "str_lt [] [] = False"
| "str_lt [] (y # ys) = True"
| "str_lt (x # xs) [] = False"
| "str_lt (x # xs) (y # ys) =
     (if x = y then str_lt xs ys else (of_char x :: nat) < of_char y)"

fun num_lt :: "jsnum \<Rightarrow> jsnum \<Rightarrow> bool" where
  "num_lt NaN y = False"
| "num_lt x NaN = False"
| "num_lt (Fin p) (Fin q) = (p < q)"
| "num_lt (Fin p) PosInf = True"
| "num_lt (Fin p) NegInf = False"
| "num_lt PosInf y = False"
| "num_lt NegInf NegInf = False"
| "num_lt NegInf y = True"

text \<open>
  \<^verbatim>\<open>a > b\<close>: two strings compare as strings, anything else as numbers, and a comparison
  with \<^verbatim>\<open>NaN\<close> is false.
\<close>

definition js_gt :: "jsval \<Rightarrow> jsval \<Rightarrow> bool" where
  "js_gt a b =
     (case (js_ToPrimitive a, js_ToPrimitive b) of
        (JStr s, JStr t) \<Rightarrow> str_lt t s
      | _ \<Rightarrow> num_lt (js_ToNumber b) (js_ToNumber a))"

text \<open>
  \<^verbatim>\<open>a === b\<close> for two different properties of one JSON payload: primitives are equal
  when they are the same value; an array or an object is a fresh reference, equal to
  no other.
\<close>

definition js_strict_eq :: "jsval \<Rightarrow> jsval \<Rightarrow> bool" where
  "js_strict_eq a b = (case a of JArr xs \<Rightarrow> False | JObj ob \<Rightarrow> False | _ \<Rightarrow> a = b)"

section \<open>The books manager\<close>

text \<open>
  The class \<^verbatim>\<open>BooksManager\<close> owns one private object, \<^verbatim>\<open>#_shelf\<close>, from book ids to
  books. Every method below takes the shelf and, when it writes, returns the new one.
  What the class reads from its environment is passed in: the string \<^verbatim>\<open>nanoid()\<close>
  returns, and the strings \<^verbatim>\<open>new Date().toISOString()\<close> returns, one for each call.
\<close>

type_synonym shelf = "(string \<times> obj) list"

text \<open>The argument of \<^verbatim>\<open>getBooks\<close>: a string (an id, or \<^verbatim>\<open>'all'\<close>) or a query object.\<close>

datatype opt = Str string | Query "(string \<times> string) list"

text \<open>What \<^verbatim>\<open>getBooks\<close> returns: an array of books, one book, or \<^verbatim>\<open>undefined\<close>.\<close>

datatype books = Books "obj list" | Book obj | NoBook

datatype error = Error string

subsection \<open>Filtering\<close>

text \<open>
  The condition of the inner loop, lines 145--146:
  \<^verbatim>\<open>String(book[key]).toLowerCase().includes(String(isNaN(+value) ? value : !!+value).toLowerCase())\<close>.
  A query value is a string, as the framework parses it from the URL.
\<close>

definition term_matches :: "obj \<Rightarrow> string \<times> string \<Rightarrow> bool" where
  "term_matches book q =
     js_includes (js_toLowerCase (js_String (get book (fst q))))
       (js_toLowerCase
          (if js_isNaN (string_to_number (snd q)) then snd q
           else show_bool (num_truthy (string_to_number (snd q)))))"

text \<open>
  One round of the inner loop for the query at index \<open>i\<close>: mark it when it matches,
  push the book when every mark is set, and clear all marks.
\<close>

definition query_step ::
  "(string \<times> string) list \<Rightarrow> obj \<Rightarrow> nat \<Rightarrow> int list \<times> obj list \<Rightarrow> int list \<times> obj list" where
  "query_step querys book i st =
     (let isPassed = (if term_matches book (querys ! i) then (fst st)[i := 1] else fst st);
          bagOfBooks = (if list_all (\<lambda>test. test \<noteq> 0) isPassed then snd st @ [book] else snd st)
      in (map (\<lambda>_. 0) isPassed, bagOfBooks))"

definition book_step ::
  "(string \<times> string) list \<Rightarrow> obj \<Rightarrow> int list \<times> obj list \<Rightarrow> int list \<times> obj list" where
  "book_step querys book st = fold (query_step querys book) [0 ..< length querys] st"

definition filterBooksBasedOnQuerys :: "shelf \<Rightarrow> (string \<times> string) list \<Rightarrow> error + obj list" where
  "filterBooksBasedOnQuerys shelf queryObj =
     (if length (keys queryObj) = 0 then Inl (Error ''queryObj is an empty object'')
      else
        let querys = entries queryObj;
            isPassed = replicate (length querys) 0
        in Inr (snd (fold (book_step querys) (values_of shelf) (isPassed, []))))"

subsection \<open>Reading and writing the shelf\<close>

definition getBooks :: "shelf \<Rightarrow> opt \<Rightarrow> error + books" where
  "getBooks shelf opt =
     (case opt of
        Str s \<Rightarrow>
          if s = ''all'' then Inr (Books (values_of shelf))
          else Inr (case map_of shelf s of None \<Rightarrow> NoBook | Some b \<Rightarrow> Book b)
      | Query q \<Rightarrow>
          (case filterBooksBasedOnQuerys shelf q of Inl e \<Rightarrow> Inl e | Inr bs \<Rightarrow> Inr (Books bs)))"

text \<open>
  \<^verbatim>\<open>#addBook\<close>: \<open>nid\<close> is what \<^verbatim>\<open>nanoid()\<close> returned, \<open>t1\<close> and \<open>t2\<close> what the two calls of
  \<^verbatim>\<open>new Date().toISOString()\<close> on lines 79 and 80 returned.
\<close>

definition addBook :: "string \<Rightarrow> string \<Rightarrow> string \<Rightarrow> obj \<Rightarrow> shelf \<Rightarrow> string \<times> shelf" where
  "addBook nid t1 t2 book shelf =
     (let b1 = AList.update ''finished''
                 (JBool (js_strict_eq (get book ''pageCount'') (get book ''readPage''))) book;
          b2 = AList.update ''insertedAt'' (JStr t1) b1;
          b3 = AList.update ''updatedAt'' (JStr t2) b2;
          b4 = AList.update ''id'' (JStr nid) b3
      in (nid, AList.update nid b4 shelf))"

text \<open>
  The own enumerable properties of what \<^verbatim>\<open>getBooks\<close> returned: those of a book, or the
  indices of an array with its elements.
\<close>

definition properties :: "books \<Rightarrow> obj option" where
  "properties v =
     (case v of
        NoBook \<Rightarrow> None
      | Book b \<Rightarrow> Some b
      | Books bs \<Rightarrow> Some (zip (map show_nat [0 ..< length bs]) (map JObj bs)))"

text \<open>
  \<^verbatim>\<open>#updateBook(newBook)\<close> receives a reference. \<open>alias\<close> is the key of the shelf whose
  book is that very object (none when the argument is a fresh array), so that the
  assignment \<^verbatim>\<open>newBook.updatedAt = updatedAt\<close> on line 95 is seen through the shelf, as
  it is in the source. Destructuring \<^verbatim>\<open>undefined\<close> on line 92 throws: no result. The
  statement inside \<^verbatim>\<open>try\<close> cannot throw, so the method returns \<^verbatim>\<open>true\<close>.
\<close>

definition updateBook :: "string \<Rightarrow> string option \<Rightarrow> books \<Rightarrow> shelf \<Rightarrow> (bool \<times> shelf) option" where
  "updateBook updatedAt alias newBook shelf =
     (case properties newBook of
        None \<Rightarrow> None
      | Some props \<Rightarrow>
          let key = js_String (get props ''id'');
              newBook' = AList.update ''updatedAt'' (JStr updatedAt) props;
              shelf' = (case alias of None \<Rightarrow> shelf | Some k \<Rightarrow> AList.update k newBook' shelf);
              stored = (case map_of shelf' key of None \<Rightarrow> [] | Some b \<Rightarrow> b)
          in Some (True,
               AList.update key
                 (spread stored (spread newBook' [(''updatedAt'', JStr updatedAt)])) shelf'))"

text \<open>A path parameter that is missing is \<^verbatim>\<open>undefined\<close>, the property key \<^verbatim>\<open>"undefined"\<close>.\<close>

definition property_key :: "string option \<Rightarrow> string" where
  "property_key p = (case p of None \<Rightarrow> ''undefined'' | Some s \<Rightarrow> s)"

definition deleteBook :: "string option \<Rightarrow> shelf \<Rightarrow> shelf" where
  "deleteBook bid shelf = AList.delete (property_key bid) shelf"

text \<open>
  \<^verbatim>\<open>#findBook\<close>: \<^verbatim>\<open>getBooks(id)\<close> with \<^verbatim>\<open>undefined\<close> takes the default \<^verbatim>\<open>'all'\<close>. The data of
  a miss is \<^verbatim>\<open>null\<close>.
\<close>

definition findBook :: "shelf \<Rightarrow> string option \<Rightarrow> error + bool \<times> books option" where
  "findBook shelf bid =
     (if hasOwnProperty shelf (property_key bid) then
        (case getBooks shelf (Str (case bid of None \<Rightarrow> ''all'' | Some s \<Rightarrow> s)) of
           Inl e \<Rightarrow> Inl e
         | Inr d \<Rightarrow> Inr (True, Some d))
      else Inr (False, None))"

subsection \<open>Validation\<close>

text \<open>
  \<^verbatim>\<open>#validatePayload\<close> returns an object with a status and a message, or the bare
  \<^verbatim>\<open>false\<close> of line 208.
\<close>

datatype validation = Verdict bool string | JustFalse

definition bookObjectProperties :: "(string \<times> string) list" where
  "bookObjectProperties =
     [(''name'', ''string''), (''year'', ''number''), (''author'', ''string''),
      (''summary'', ''string''), (''publisher'', ''string''), (''pageCount'', ''number''),
      (''readPage'', ''number''), (''reading'', ''boolean'')]"

text \<open>The \<^verbatim>\<open>for ... in\<close> loop of lines 188--207 over the remaining properties.\<close>

fun validate_loop :: "(string \<times> string) list \<Rightarrow> obj \<Rightarrow> validation" where
  "validate_loop [] book = JustFalse"
| "validate_loop (p # ps) book =
     (if fst p \<in> set (keys book) then
        (if \<not> js_truthy (get book ''name'') then Verdict False ''empty name''
         else if js_gt (get book ''readPage'') (get book ''pageCount'')
           then Verdict False ''readerPage is bigger then pageCount''
         else if js_typeof (get book (fst p)) \<noteq> snd p then Verdict False ''generic error''
         else Verdict True ''ok'')
      else validate_loop ps book)"

definition validatePayload :: "obj \<Rightarrow> validation" where
  "validatePayload book = validate_loop bookObjectProperties book"

text \<open>
  The handlers read \<^verbatim>\<open>.status\<close> and \<^verbatim>\<open>.message\<close> off the result; off \<^verbatim>\<open>false\<close> both are
  \<^verbatim>\<open>undefined\<close>: a falsy status, and a message equal to no string.
\<close>

definition status_of :: "validation \<Rightarrow> bool" where
  "status_of v = (case v of Verdict s m \<Rightarrow> s | JustFalse \<Rightarrow> False)"

definition message_of :: "validation \<Rightarrow> string option" where
  "message_of v = (case v of Verdict s m \<Rightarrow> Some m | JustFalse \<Rightarrow> None)"

subsection \<open>The handlers\<close>

text \<open>
  A request carries the parsed JSON object of its body, the optional path parameter
  \<^verbatim>\<open>bookId\<close> and the parsed query. A response is the JSON body with its status code.
\<close>

record request =
  payload :: obj
  bookId :: "string option"
  query :: "(string \<times> string) list"

datatype resdata = NoData | DataBookId string | DataBook books | DataBooks books

record response =
  status :: string
  message :: "string option"
  data :: resdata
  httpCode :: nat

text \<open>
  \<^verbatim>\<open>#putHandler\<close>. No response (\<open>None\<close>) stands for a handler that throws or returns
  \<^verbatim>\<open>undefined\<close>. The book passed to \<^verbatim>\<open>#updateBook\<close> on line 285 is \<open>data\<close>, the stored
  one; it is the shelf's own object unless \<^verbatim>\<open>getBooks\<close> built the array of all books.
\<close>

definition putHandler :: "string \<Rightarrow> request \<Rightarrow> shelf \<Rightarrow> response option \<times> shelf" where
  "putHandler now request shelf =
     (let newBook = payload request in
      case findBook shelf (bookId request) of
        Inl e \<Rightarrow> (None, shelf)
      | Inr found \<Rightarrow>
          if \<not> fst found then
            (Some \<lparr>status = ''fail'',
                   message = Some ''Gagal memperbarui buku. Id tidak ditemukan'',
                   data = NoData, httpCode = 404\<rparr>, shelf)
          else
            let v = validatePayload newBook in
            if \<not> status_of v then
              (if message_of v = Some ''general error'' then
                 (Some \<lparr>status = ''fail'', message = Some ''Gagal memperbarui buku'',
                        data = NoData, httpCode = 500\<rparr>, shelf)
               else if message_of v = Some ''empty name'' then
                 (Some \<lparr>status = ''fail'',
                        message = Some ''Gagal memperbarui buku. Mohon isi nama buku'',
                        data = NoData, httpCode = 400\<rparr>, shelf)
               else
                 (Some \<lparr>status = ''fail'',
                        message = Some (''Gagal memperbarui buku. '' @
                          ''readPage tidak boleh lebih besar dari pageCount''),
                        data = NoData, httpCode = 400\<rparr>, shelf))
            else
              (case snd found of
                 None \<Rightarrow> (None, shelf)
               | Some d \<Rightarrow>
                   (case updateBook now
                           (if property_key (bookId request) = ''all'' \<or> bookId request = None
                            then None else bookId request) d shelf of
                      None \<Rightarrow> (None, shelf)
                    | Some u \<Rightarrow>
                        if fst u then
                          (Some \<lparr>status = ''success'', message = Some ''Buku berhasil diperbarui'',
                                 data = NoData, httpCode = 200\<rparr>, snd u)
                        else (None, snd u))))"

text \<open>\<^verbatim>\<open>#getHandler\<close>: a query first, then a detail, else the whole list.\<close>

definition getHandler :: "request \<Rightarrow> shelf \<Rightarrow> response option" where
  "getHandler request shelf =
     (if length (keys (query request)) \<noteq> 0 then
        (case getBooks shelf (Query (query request)) of
           Inl e \<Rightarrow> None
         | Inr bs \<Rightarrow>
             Some \<lparr>status = ''success'', message = None, data = DataBooks bs, httpCode = 200\<rparr>)
      else if js_truthy (case bookId request of None \<Rightarrow> JUndefined | Some s \<Rightarrow> JStr s) then
        (case getBooks shelf (Str (property_key (bookId request))) of
           Inl e \<Rightarrow> None
         | Inr book \<Rightarrow>
             if book = NoBook then
               Some \<lparr>status = ''fail'', message = Some ''Buku tidak ditemukan'',
                     data = NoData, httpCode = 404\<rparr>
             else
               Some \<lparr>status = ''success'', message = None, data = DataBook book, httpCode = 200\<rparr>)
      else
        (case getBooks shelf (Str ''all'') of
           Inl e \<Rightarrow> None
         | Inr bs \<Rightarrow>
             Some \<lparr>status = ''success'', message = None, data = DataBooks bs, httpCode = 200\<rparr>))"

text \<open>\<^verbatim>\<open>#postHandler\<close>; the environment is read by \<^verbatim>\<open>#addBook\<close> only.\<close>

definition postHandler ::
  "string \<Rightarrow> string \<Rightarrow> string \<Rightarrow> request \<Rightarrow> shelf \<Rightarrow> response option \<times> shelf" where
  "postHandler nid t1 t2 request shelf =
     (let book = payload request;
          validationResult = validatePayload book;
          st = (if status_of validationResult then ''success'' else ''fail'')
      in
        if status_of validationResult then
          (let added = addBook nid t1 t2 book shelf in
           (Some \<lparr>status = ''success'', message = Some ''Buku berhasil ditambahkan'',
                  data = DataBookId (fst added), httpCode = 201\<rparr>, snd added))
        else if message_of validationResult = Some ''generic error'' then
          (Some \<lparr>status = st, message = Some ''Buku gagal ditambahkan'',
                 data = NoData, httpCode = 500\<rparr>, shelf)
        else if message_of validationResult = Some ''empty name'' then
          (Some \<lparr>status = st, message = Some ''Gagal menambahkan buku. Mohon isi nama buku'',
                 data = NoData, httpCode = 400\<rparr>, shelf)
        else
          (Some \<lparr>status = st,
                 message = Some (''Gagal menambahkan buku. readPage tidak '' @
                   ''boleh lebih besar dari pageCount''),
                 data = NoData, httpCode = 400\<rparr>, shelf))"

text \<open>\<^verbatim>\<open>#deleteHandler\<close>.\<close>

definition deleteHandler :: "request \<Rightarrow> shelf \<Rightarrow> response option \<times> shelf" where
  "deleteHandler request shelf =
     (case findBook shelf (bookId request) of
        Inl e \<Rightarrow> (None, shelf)
      | Inr found \<Rightarrow>
          if \<not> fst found then
            (Some \<lparr>status = ''fail'', message = Some ''Buku gagal dihapus. Id tidak ditemukan'',
                   data = NoData, httpCode = 404\<rparr>, shelf)
          else
            (Some \<lparr>status = ''success'', message = Some ''Buku berhasil dihapus'',
                   data = NoData, httpCode = 200\<rparr>, deleteBook (bookId request) shelf))"

section \<open>Sequences of requests\<close>

text \<open>
  \<^verbatim>\<open>nanoid()\<close> returns 21 characters of its URL-safe alphabet.
\<close>

definition is_nanoid :: "string \<Rightarrow> bool" where
  "is_nanoid s =
     (length s = 21 \<and>
      list_all (\<lambda>c. c \<in> set ''ABCDEFGHIJKLMNOPQRSTUVWXYZabcdefghijklmnopqrstuvwxyz0123456789_-'') s)"

text \<open>
  The four operations the server routes to the manager, each with what it reads from
  the environment: Create the id and the two clock readings, Update its clock reading.
\<close>

datatype operation =
    Create string string string request
  | Retrieve request
  | Update string request
  | Delete request

text \<open>The shelf after an operation; \<^verbatim>\<open>#getHandler\<close> writes nothing.\<close>

fun run :: "operation \<Rightarrow> shelf \<Rightarrow> shelf" where
  "run (Create nid t1 t2 r) s = snd (postHandler nid t1 t2 r s)"
| "run (Retrieve r) s = s"
| "run (Update now r) s = snd (putHandler now r s)"
| "run (Delete r) s = snd (deleteHandler r s)"

text \<open>
  What the environment can do: the id of a Create is a \<^verbatim>\<open>nanoid\<close>, and a fresh one (the
  generator is taken to be free of collisions).
\<close>

fun admissible :: "shelf \<Rightarrow> operation \<Rightarrow> bool" where
  "admissible s (Create nid t1 t2 r) = (is_nanoid nid \<and> \<not> hasOwnProperty s nid)"
| "admissible s (Retrieve r) = True"
| "admissible s (Update now r) = True"
| "admissible s (Delete r) = True"

text \<open>The shelf a sequence of operations leads to, none when one is not admissible.\<close>

fun run_all :: "operation list \<Rightarrow> shelf \<Rightarrow> shelf option" where
  "run_all [] s = Some s"
| "run_all (x # xs) s = (if admissible s x then run_all xs (run x s) else None)"

text \<open>The invariant the proofs carry: a book's id is its key, and keys are ids.\<close>

definition keyed :: "shelf \<Rightarrow> bool" where
  "keyed s = (\<forall>k b. map_of s k = Some b \<longrightarrow> get b ''id'' = JStr k \<and> length k = 21)"

text \<open>The object line 98 builds from a stored book \<open>b\<close> at the clock reading \<open>now\<close>.\<close>

definition touch :: "string \<Rightarrow> obj \<Rightarrow> obj" where
  "touch now b =
     (let b' = AList.update ''updatedAt'' (JStr now) b
      in spread b' (spread b' [(''updatedAt'', JStr now)]))"

section \<open>Example data\<close>

text \<open>The payload of the scenario in the specification, and the id of one Create.\<close>

definition dune :: obj where
  "dune =
     [(''name'', JStr ''Dune''), (''year'', JNum 1965), (''author'', JStr ''Herrick''),
      (''summary'', JStr ''s''), (''publisher'', JStr ''p''), (''pageCount'', JNum 500),
      (''readPage'', JNum 500), (''reading'', JBool False)]"

definition dune_id :: string where
  "dune_id = ''V1StGXR8_Z5jdHi6B-myT''"

text \<open>The book Create stores for it when both clock readings are the same instant.\<close>

definition dune_stored :: obj where
  "dune_stored =
     dune @
     [(''finished'', JBool True), (''insertedAt'', JStr ''2024-01-01T00:00:00.000Z''),
      (''updatedAt'', JStr ''2024-01-01T00:00:00.000Z''), (''id'', JStr dune_id)]"

definition dune_shelf :: shelf where
  "dune_shelf = [(dune_id, dune_stored)]"

text \<open>The same book after an Update a day later.\<close>

definition dune_updated :: obj where
  "dune_updated =
     [(''updatedAt'', JStr ''2024-01-02T00:00:00.000Z''), (''name'', JStr ''Dune''),
      (''year'', JNum 1965), (''author'', JStr ''Herrick''), (''summary'', JStr ''s''),
      (''publisher'', JStr ''p''), (''pageCount'', JNum 500), (''readPage'', JNum 500),
      (''reading'', JBool False), (''finished'', JBool True),
      (''insertedAt'', JStr ''2024-01-01T00:00:00.000Z''), (''id'', JStr dune_id)]"

text \<open>A second stored book, one being read.\<close>

definition emma_id :: string where
  "emma_id = ''Uakgb_J5m9g-0JDMbcJqL''"

definition emma_stored :: obj where
  "emma_stored =
     [(''name'', JStr ''Emma''), (''year'', JNum 1815), (''author'', JStr ''Austen''),
      (''pageCount'', JNum 474), (''readPage'', JNum 120), (''reading'', JBool True),
      (''finished'', JBool False), (''insertedAt'', JStr ''2024-01-03T00:00:00.000Z''),
      (''updatedAt'', JStr ''2024-01-03T00:00:00.000Z''), (''id'', JStr emma_id)]"

definition two_shelf :: shelf where
  "two_shelf = [(dune_id, dune_stored), (emma_id, emma_stored)]"

text \<open>A payload whose year is a string, and one whose name is a number.\<close>

definition wrong_year :: obj where
  "wrong_year = [(''name'', JStr ''Dune''), (''year'', JStr ''nineteen sixty-five'')]"

definition wrong_name :: obj where
  "wrong_name = [(''name'', JNum 5)]"

section \<open>Facts about objects\<close>

lemma map_of_entries: "map_of (entries ob) = map_of ob"
  by (simp add: entries_def map_of_clearjunk)

lemma distinct_entries: "distinct (map fst (entries ob))"
  by (simp add: entries_def distinct_clearjunk)

lemma set_keys: "set (keys ob) = fst ` set ob"
  by (simp add: keys_def entries_def) (metis dom_clearjunk dom_map_of_conv_image_fst)

lemma hasOwnProperty_keys: "hasOwnProperty ob k = (k \<in> set (keys ob))"
  by (simp add: hasOwnProperty_def set_keys map_of_eq_None_iff)

lemma get_update: "get (AList.update k v ob) k' = (if k' = k then v else get ob k')"
  by (simp add: get_def update_conv')

lemma hasOwnProperty_update:
  "hasOwnProperty (AList.update k v ob) k' = (k' = k \<or> hasOwnProperty ob k')"
  by (simp add: hasOwnProperty_def update_conv')

lemma map_of_fold_update:
  "distinct (map fst xs) \<Longrightarrow>
   map_of (fold (\<lambda>p. AList.update (fst p) (snd p)) xs tgt) k =
     (case map_of xs k of None \<Rightarrow> map_of tgt k | Some v \<Rightarrow> Some v)"
proof (induction xs arbitrary: tgt)
  case Nil
  then show ?case by simp
next
  case (Cons p xs)
  show ?case
  proof (cases "map_of xs k")
    case None
    with Cons show ?thesis by (cases p) (simp add: update_conv')
  next
    case (Some v)
    then have "k \<in> fst ` set xs" by (metis map_of_eq_None_iff option.distinct(1))
    with Cons Some show ?thesis by (cases p) auto
  qed
qed

text \<open>A spread reads as its source where the source has the property.\<close>

lemma get_spread:
  "get (spread src tgt) k = (if hasOwnProperty src k then get src k else get tgt k)"
  using map_of_fold_update [OF distinct_entries, of src tgt k]
  by (auto simp: get_def spread_def hasOwnProperty_def map_of_entries split: option.splits)

text \<open>Line 98 changes \<^verbatim>\<open>updatedAt\<close> and nothing else.\<close>

lemma get_touch: "get (touch now b) f = (if f = ''updatedAt'' then JStr now else get b f)"
  by (auto simp: touch_def Let_def get_spread get_update hasOwnProperty_update)
     (auto simp: get_def hasOwnProperty_def split: option.splits)

section \<open>Facts about the filter\<close>

lemma not_all_set:
  assumes "2 \<le> n" "i < n"
  shows "\<not> list_all (\<lambda>test. test \<noteq> 0) ((replicate n (0::int))[i := 1])"
proof -
  define j where "j = (if i = 0 then 1 else (0::nat))"
  have j: "j < n" "j \<noteq> i" using assms by (auto simp: j_def)
  then have "((replicate n (0::int))[i := 1]) ! j = 0" by simp
  moreover have "j < length ((replicate n (0::int))[i := 1])" using j by simp
  ultimately show ?thesis unfolding list_all_length by metis
qed

lemma not_all_zero:
  "0 < n \<Longrightarrow> \<not> list_all (\<lambda>test. test \<noteq> 0) (replicate n (0::int))"
  by (cases n) simp_all

text \<open>
  With two or more query terms, a round of the inner loop sets one mark at most, finds
  another one clear, pushes nothing and clears the marks again.
\<close>

lemma query_step_many:
  assumes "2 \<le> n" "i < n"
  shows "query_step querys book i (replicate n 0, bag) = (replicate n 0, bag)"
  using not_all_set [OF assms] not_all_zero [of n] assms
  by (simp add: query_step_def Let_def map_replicate_const)

lemma fold_query_step_many:
  assumes "2 \<le> n" "\<forall>i \<in> set is. i < n"
  shows "fold (query_step querys book) is (replicate n 0, bag) = (replicate n 0, bag)"
  using assms(2) by (induction "is") (simp_all add: query_step_many [OF assms(1)])

lemma book_step_many:
  "2 \<le> length querys \<Longrightarrow>
   book_step querys book (replicate (length querys) 0, bag) = (replicate (length querys) 0, bag)"
  by (simp add: book_step_def fold_query_step_many)

lemma fold_book_step_many:
  "2 \<le> length querys \<Longrightarrow>
   fold (book_step querys) bs (replicate (length querys) 0, bag) =
     (replicate (length querys) 0, bag)"
  by (induction bs) (simp_all add: book_step_many)

lemma filter_many_terms:
  "2 \<le> length (entries queryObj) \<Longrightarrow> filterBooksBasedOnQuerys shelf queryObj = Inr []"
  by (auto simp: filterBooksBasedOnQuerys_def keys_def Let_def fold_book_step_many)





section \<open>Facts about validation\<close>

text \<open>A payload with none of the eight properties gets the bare \<^verbatim>\<open>false\<close>.\<close>

lemma validate_loop_no_field:
  "list_all (\<lambda>p. \<not> hasOwnProperty book (fst p)) ps \<Longrightarrow> validate_loop ps book = JustFalse"
  by (induction ps) (simp_all add: hasOwnProperty_keys)

text \<open>With one of them, the two business rules come first, in their order.\<close>

lemma validate_loop_empty_name:
  "list_ex (\<lambda>p. hasOwnProperty book (fst p)) ps \<Longrightarrow> \<not> js_truthy (get book ''name'') \<Longrightarrow>
   validate_loop ps book = Verdict False ''empty name''"
  by (induction ps) (auto simp: hasOwnProperty_keys)

lemma validate_loop_readPage:
  "list_ex (\<lambda>p. hasOwnProperty book (fst p)) ps \<Longrightarrow> js_truthy (get book ''name'') \<Longrightarrow>
   js_gt (get book ''readPage'') (get book ''pageCount'') \<Longrightarrow>
   validate_loop ps book = Verdict False ''readerPage is bigger then pageCount''"
  by (induction ps) (auto simp: hasOwnProperty_keys)

text \<open>
  A payload with a name is judged at the first round of the loop: the only type the
  validator looks at is the name's.
\<close>

lemma validatePayload_name_present:
  "hasOwnProperty book ''name'' \<Longrightarrow>
   validatePayload book =
     (if \<not> js_truthy (get book ''name'') then Verdict False ''empty name''
      else if js_gt (get book ''readPage'') (get book ''pageCount'')
        then Verdict False ''readerPage is bigger then pageCount''
      else if js_typeof (get book ''name'') \<noteq> ''string'' then Verdict False ''generic error''
      else Verdict True ''ok'')"
  by (simp add: validatePayload_def bookObjectProperties_def hasOwnProperty_keys)

lemma validate_loop_message:
  "validate_loop ps book = Verdict st m \<Longrightarrow>
   m \<in> set [''empty name'', ''readerPage is bigger then pageCount'', ''generic error'', ''ok'']"
  by (induction ps) (auto split: if_splits)

text \<open>No verdict carries the message line 251 compares with.\<close>

lemma message_never_general: "message_of (validatePayload book) \<noteq> Some ''general error''"
proof (cases "validatePayload book")
  case (Verdict st m)
  from validate_loop_message [OF Verdict [unfolded validatePayload_def]]
  have "m \<noteq> ''general error''" by auto
  with Verdict show ?thesis by (simp add: message_of_def)
next
  case JustFalse
  then show ?thesis by (simp add: message_of_def)
qed

section \<open>Facts about the handlers\<close>

lemma put_never_500: "fst (putHandler now r s) = Some resp \<Longrightarrow> httpCode resp \<noteq> 500"
  using message_never_general [of "payload r"]
  by (auto simp: putHandler_def Let_def split: sum.splits if_splits option.splits)

text \<open>Update reads its payload to validate it and for nothing else.\<close>

lemma put_reads_payload_for_validation_only:
  "status_of (validatePayload p) \<Longrightarrow> status_of (validatePayload p') \<Longrightarrow>
   putHandler now \<lparr>payload = p', bookId = k, query = q'\<rparr> s =
   putHandler now \<lparr>payload = p, bookId = k, query = q\<rparr> s"
proof (cases "findBook s k")
  case (Inl e)
  then show ?thesis by (simp add: putHandler_def)
next
  case (Inr found)
  assume "status_of (validatePayload p)" "status_of (validatePayload p')"
  with Inr show ?thesis by (cases "snd found") (simp_all add: putHandler_def Let_def)
qed

text \<open>An accepted Update of a stored book rebuilds it with a new \<^verbatim>\<open>updatedAt\<close>.\<close>

lemma put_accepted:
  assumes "keyed s" "map_of s k = Some b" "bookId r = Some k"
    "status_of (validatePayload (payload r))"
  shows "putHandler now r s =
    (Some \<lparr>status = ''success'', message = Some ''Buku berhasil diperbarui'',
           data = NoData, httpCode = 200\<rparr>, AList.update k (touch now b) s)"
proof -
  from assms have k: "get b ''id'' = JStr k" "length k = 21" by (auto simp: keyed_def)
  then have na: "k \<noteq> ''all''" by auto
  have f: "findBook s (Some k) = Inr (True, Some (Book b))"
    using assms(2) na by (simp add: findBook_def property_key_def hasOwnProperty_def getBooks_def)
  have u: "updateBook now (Some k) (Book b) s = Some (True, AList.update k (touch now b) s)"
    using k by (simp add: updateBook_def properties_def Let_def touch_def update_conv' update_last)
  show ?thesis using assms(3,4) f u na by (simp add: putHandler_def Let_def property_key_def)
qed

text \<open>A detail request for an id other than \<^verbatim>\<open>'all'\<close> finds the book or answers 404.\<close>

lemma get_by_id:
  "k \<noteq> ''all'' \<Longrightarrow> k \<noteq> [] \<Longrightarrow>
   getHandler \<lparr>payload = p, bookId = Some k, query = []\<rparr> s =
     (case map_of s k of
        None \<Rightarrow> Some \<lparr>status = ''fail'', message = Some ''Buku tidak ditemukan'',
                       data = NoData, httpCode = 404\<rparr>
      | Some b \<Rightarrow> Some \<lparr>status = ''success'', message = None, data = DataBook (Book b),
                         httpCode = 200\<rparr>)"
  by (simp add: getHandler_def keys_def entries_def getBooks_def property_key_def
      split: option.splits)

text \<open>
  An accepted Create answers 201 with the id, and the detail request for that id
  returns the book, finished as computed, stamped with the two clock readings.
\<close>

lemma create_then_retrieve:
  assumes "status_of (validatePayload (payload r))" "nid \<noteq> ''all''" "nid \<noteq> []"
  shows "\<exists>b. fst (postHandler nid t1 t2 r s) =
           Some \<lparr>status = ''success'', message = Some ''Buku berhasil ditambahkan'',
                  data = DataBookId nid, httpCode = 201\<rparr> \<and>
         getHandler \<lparr>payload = p, bookId = Some nid, query = []\<rparr>
             (snd (postHandler nid t1 t2 r s)) =
           Some \<lparr>status = ''success'', message = None, data = DataBook (Book b),
                  httpCode = 200\<rparr> \<and>
         get b ''finished'' =
           JBool (js_strict_eq (get (payload r) ''pageCount'') (get (payload r) ''readPage'')) \<and>
         get b ''insertedAt'' = JStr t1 \<and> get b ''updatedAt'' = JStr t2 \<and>
         get b ''id'' = JStr nid"
  using assms
  by (simp add: postHandler_def Let_def get_by_id addBook_def update_conv' get_update)

section \<open>The invariant of the shelf\<close>

lemma addBook_shelf:
  "map_of (snd (addBook nid t1 t2 book s)) k =
     (if k = nid then Some (snd (hd (snd (addBook nid t1 t2 book [])))) else map_of s k)"
  by (simp add: addBook_def Let_def update_conv')

lemma addBook_id:
  "map_of (snd (addBook nid t1 t2 book s)) nid = Some b \<Longrightarrow> get b ''id'' = JStr nid"
  by (auto simp: addBook_def Let_def update_conv' get_update)

lemma post_shelf:
  "snd (postHandler nid t1 t2 r s) = s \<or>
   snd (postHandler nid t1 t2 r s) = snd (addBook nid t1 t2 (payload r) s)"
  by (simp add: postHandler_def Let_def)

lemma put_shelf:
  assumes "keyed s"
  shows "snd (putHandler now r s) = s \<or>
     (\<exists>k b. map_of s k = Some b \<and> snd (putHandler now r s) = AList.update k (touch now b) s)"
proof (cases "bookId r")
  case None
  have "\<not> hasOwnProperty s ''undefined''"
  proof
    assume "hasOwnProperty s ''undefined''"
    then obtain b where "map_of s ''undefined'' = Some b" by (auto simp: hasOwnProperty_def)
    with assms have "length ''undefined'' = 21" unfolding keyed_def by blast
    then show False by simp
  qed
  with None show ?thesis by (simp add: putHandler_def findBook_def property_key_def)
next
  case (Some k)
  show ?thesis
  proof (cases "map_of s k")
    case None
    with Some show ?thesis
      by (simp add: putHandler_def findBook_def property_key_def hasOwnProperty_def)
  next
    case b: (Some b)
    show ?thesis
    proof (cases "status_of (validatePayload (payload r))")
      case True
      from put_accepted [OF assms b Some True, of now] b show ?thesis by auto
    next
      case False
      with assms b Some have "length k = 21" by (auto simp: keyed_def)
      then have "k \<noteq> ''all''" by auto
      with False b Some show ?thesis
        by (simp add: putHandler_def Let_def findBook_def property_key_def hasOwnProperty_def
            getBooks_def)
    qed
  qed
qed

lemma delete_shelf:
  "snd (deleteHandler r s) = s \<or>
   snd (deleteHandler r s) = AList.delete (property_key (bookId r)) s"
  by (auto simp: deleteHandler_def deleteBook_def split: sum.splits)

lemma keyed_run:
  assumes "keyed s" "admissible s x"
  shows "keyed (run x s)"
proof (cases x)
  case (Create nid t1 t2 r)
  with assms(2) have n: "length nid = 21" by (simp add: is_nanoid_def)
  from post_shelf [of nid t1 t2 r s] show ?thesis
  proof
    assume "snd (postHandler nid t1 t2 r s) = s"
    with Create assms show ?thesis by simp
  next
    assume e: "snd (postHandler nid t1 t2 r s) = snd (addBook nid t1 t2 (payload r) s)"
    show ?thesis
      unfolding keyed_def
    proof (intro allI impI)
      fix k b assume m: "map_of (run x s) k = Some b"
      show "get b ''id'' = JStr k \<and> length k = 21"
      proof (cases "k = nid")
        case True
        with m e Create n show ?thesis using addBook_id [of nid t1 t2 "payload r" s b] by simp
      next
        case False
        with m e Create have "map_of s k = Some b" by (simp add: addBook_shelf)
        with assms(1) show ?thesis by (simp add: keyed_def)
      qed
    qed
  qed
next
  case (Retrieve r)
  with assms show ?thesis by simp
next
  case (Update now r)
  from put_shelf [OF assms(1), of now r] show ?thesis
  proof (elim disjE exE conjE)
    assume "snd (putHandler now r s) = s"
    with Update assms show ?thesis by simp
  next
    fix k b assume b: "map_of s k = Some b"
      and e: "snd (putHandler now r s) = AList.update k (touch now b) s"
    from b assms(1) have "get b ''id'' = JStr k" "length k = 21" by (auto simp: keyed_def)
    with e Update assms(1) show ?thesis
      by (auto simp: keyed_def update_conv' get_touch)
  qed
next
  case (Delete r)
  from delete_shelf [of r s] assms(1) Delete show ?thesis
    by (auto simp: keyed_def delete_conv' split: if_splits)
qed

lemma keyed_run_all: "keyed s0 \<Longrightarrow> run_all xs s0 = Some s \<Longrightarrow> keyed s"
proof (induction xs arbitrary: s0)
  case Nil
  then show ?case by simp
next
  case (Cons x xs)
  from Cons.prems(2) have a: "admissible s0 x" and r: "run_all xs (run x s0) = Some s"
    by (auto split: if_splits)
  from keyed_run [OF Cons.prems(1) a] r show ?case by (rule Cons.IH)
qed

lemma run_keeps:
  assumes "keyed s" "admissible s x" "map_of s k = Some b" "map_of (run x s) k = Some b'"
  shows "get b' ''id'' = get b ''id'' \<and> get b' ''insertedAt'' = get b ''insertedAt''"
proof (cases x)
  case (Create nid t1 t2 r)
  with assms(2,3) have "k \<noteq> nid" by (auto simp: hasOwnProperty_def)
  with post_shelf [of nid t1 t2 r s] assms(3,4) Create show ?thesis
    by (auto simp: addBook_shelf)
next
  case (Retrieve r)
  with assms show ?thesis by simp
next
  case (Update now r)
  from put_shelf [OF assms(1), of now r] show ?thesis
  proof (elim disjE exE conjE)
    assume "snd (putHandler now r s) = s"
    with Update assms show ?thesis by simp
  next
    fix k' c assume c: "map_of s k' = Some c"
      and e: "snd (putHandler now r s) = AList.update k' (touch now c) s"
    with Update assms(3,4) show ?thesis
      by (cases "k = k'") (auto simp: update_conv' get_touch)
  qed
next
  case (Delete r)
  from delete_shelf [of r s] assms(3,4) Delete show ?thesis
    by (auto simp: delete_conv' split: if_splits)
qed

section \<open>Evaluating the examples\<close>

lemmas example_defs =
  dune_def dune_id_def dune_stored_def dune_shelf_def dune_updated_def
  emma_id_def emma_stored_def two_shelf_def wrong_year_def wrong_name_def

lemmas manager_defs =
  putHandler_def postHandler_def getHandler_def deleteHandler_def findBook_def getBooks_def
  deleteBook_def updateBook_def addBook_def properties_def property_key_def
  validatePayload_def bookObjectProperties_def status_of_def message_of_def
  hasOwnProperty_def keys_def entries_def values_of_def spread_def get_def Let_def
  js_gt_def js_ToPrimitive_def js_ToNumber_def js_strict_eq_def

lemmas number_defs =
  string_to_number_def trim_def is_space_def unsigned_decimal_def is_digit_def
  digit_value_def digits_value_def exponent_part_def scale10_def non_decimal_def negate_def

lemmas match_defs =
  term_matches_def js_toLowerCase_def js_isNaN_def num_truthy_def show_bool_def
  show_int_def show_nat.simps

lemma dune_matches_name: "term_matches dune_stored (''name'', ''dune'')"
  by (simp add: number_defs match_defs example_defs get_def)

lemma dune_matches_author: "term_matches dune_stored (''author'', ''herrick'')"
  by (simp add: number_defs match_defs example_defs get_def)




section \<open>The claims\<close>

text \<open>
  Claim C1. A successful Update(id, input) overwrites the stored fields that are present
  in \<open>input\<close> with its values, preserves the others, refreshes \<open>updatedAt\<close> and leaves
  \<open>insertedAt\<close> unchanged.

  The code does not overwrite: \<^verbatim>\<open>#putHandler\<close> validates the payload and then hands
  \<^verbatim>\<open>#updateBook\<close> the stored book (\<^verbatim>\<open>data\<close>, line 285), so the payload reaches the shelf
  nowhere. Updating the name of the stored book to \<^verbatim>\<open>Dune Messiah\<close> answers 200 and
  leaves the name \<^verbatim>\<open>Dune\<close>; only \<open>updatedAt\<close> changes.
\<close>

theorem update_discards_payload:
  "putHandler ''2024-01-02T00:00:00.000Z''
     \<lparr>payload = [(''name'', JStr ''Dune Messiah'')], bookId = Some dune_id, query = []\<rparr>
     dune_shelf =
   (Some \<lparr>status = ''success'', message = Some ''Buku berhasil diperbarui'',
          data = NoData, httpCode = 200\<rparr>,
    [(dune_id, dune_updated)]) \<and>
   get dune_updated ''name'' = JStr ''Dune''"
  by (simp add: example_defs manager_defs)

text \<open>
  Claim C2. For every non-empty query, the filter returns exactly the books, in
  insertion order, that pass every term.

  The code does so for one term (\<open>filter_one_term\<close>). With two or more it returns no
  book at all (\<open>filter_many_terms\<close>): the test of all marks and the clearing of the
  marks stand inside the loop over the terms (lines 150--154). The stored book passes
  both terms below and is not returned.
\<close>

theorem filter_two_terms_empty:
  "term_matches dune_stored (''name'', ''dune'') \<and>
   term_matches dune_stored (''author'', ''herrick'') \<and>
   values_of dune_shelf = [dune_stored] \<and>
   filterBooksBasedOnQuerys dune_shelf [(''name'', ''dune''), (''author'', ''herrick'')] = Inr []"
  using dune_matches_name dune_matches_author
  by (simp add: filter_many_terms entries_def values_of_def dune_shelf_def)

text \<open>
  Claim C3. Validation rules apply in a fixed priority order: an input with an empty or
  missing name fails with the empty-name kind, an input with a name and
  \<open>readPage > pageCount\<close> with the page-count kind.

  The code does so when the payload has at least one of the eight properties
  (\<open>validate_loop_empty_name\<close>, \<open>validate_loop_readPage\<close>). A payload with none of them,
  the empty object for one, falls out of the loop to \<^verbatim>\<open>return false\<close> (line 208); the
  handlers read no message off it and answer with the page-count message.
\<close>

theorem unrecognised_payload_reports_readPage:
  "validatePayload [] = JustFalse \<and>
   postHandler dune_id ''2024-01-01T00:00:00.000Z'' ''2024-01-01T00:00:00.000Z''
     \<lparr>payload = [], bookId = None, query = []\<rparr> [] =
   (Some \<lparr>status = ''fail'',
          message = Some ''Gagal menambahkan buku. readPage tidak boleh lebih besar dari pageCount'',
          data = NoData, httpCode = 400\<rparr>, []) \<and>
   putHandler ''2024-01-02T00:00:00.000Z''
     \<lparr>payload = [], bookId = Some dune_id, query = []\<rparr> dune_shelf =
   (Some \<lparr>status = ''fail'',
          message = Some ''Gagal memperbarui buku. readPage tidak boleh lebih besar dari pageCount'',
          data = NoData, httpCode = 400\<rparr>, dune_shelf)"
  by (simp add: example_defs manager_defs)

text \<open>
  Claim C4. An Update of a stored book whose payload has a name, no page overflow and a
  field of the wrong type fails with status code 500.

  The code never answers 500 to an Update (\<open>put_never_500\<close>). A wrong type in a field
  other than the name is not looked at, and the Update succeeds; a wrong type of the
  name gives the message \<^verbatim>\<open>generic error\<close>, which line 251 compares with
  \<^verbatim>\<open>general error\<close>, so that the last branch answers 400 with the page-count message.
\<close>

theorem update_type_mismatch_no_500:
  "js_typeof (get wrong_year ''year'') = ''string'' \<and>
   fst (putHandler ''2024-01-02T00:00:00.000Z''
          \<lparr>payload = wrong_year, bookId = Some dune_id, query = []\<rparr> dune_shelf) =
     Some \<lparr>status = ''success'', message = Some ''Buku berhasil diperbarui'',
           data = NoData, httpCode = 200\<rparr> \<and>
   validatePayload wrong_name = Verdict False ''generic error'' \<and>
   putHandler ''2024-01-02T00:00:00.000Z''
     \<lparr>payload = wrong_name, bookId = Some dune_id, query = []\<rparr> dune_shelf =
   (Some \<lparr>status = ''fail'',
          message = Some ''Gagal memperbarui buku. readPage tidak boleh lebih besar dari pageCount'',
          data = NoData, httpCode = 400\<rparr>, dune_shelf)"
  by (simp add: example_defs manager_defs)

text \<open>
  Claim C5. With a name and no page overflow, the validator rejects an input as soon as
  one recognized field present has a value of the wrong type.

  The code returns from the first round of its loop (line 205): with a name present it
  checks the type of the name only (\<open>validatePayload_name_present\<close>). A year that is a
  string is accepted.
\<close>

theorem validator_accepts_wrong_year:
  "js_truthy (get wrong_year ''name'') \<and>
   \<not> js_gt (get wrong_year ''readPage'') (get wrong_year ''pageCount'') \<and>
   js_typeof (get wrong_year ''year'') = ''string'' \<and>
   map_of bookObjectProperties ''year'' = Some ''number'' \<and>
   validatePayload wrong_year = Verdict True ''ok''"
  by (simp add: example_defs manager_defs)




text \<open>
  Claim C7. For every accepted input, Create answers 201 with the new id, and the book
  a detail request for that id returns is finished exactly when \<open>pageCount\<close> equals
  \<open>readPage\<close>, with \<open>insertedAt\<close> equal to \<open>updatedAt\<close>.

  The code does all of it (\<open>create_then_retrieve\<close>) but the last: \<^verbatim>\<open>#addBook\<close> reads the
  clock twice (lines 79 and 80), once for each stamp, where \<^verbatim>\<open>#updateBook\<close> reads it
  once and keeps the value. When the clock advances between the two readings the
  stored stamps differ.
\<close>

theorem create_stamps_two_clock_readings:
  "validatePayload dune = Verdict True ''ok'' \<and>
   postHandler dune_id ''2024-01-01T00:00:00.000Z'' ''2024-01-01T00:00:00.001Z''
     \<lparr>payload = dune, bookId = None, query = []\<rparr> [] =
   (Some \<lparr>status = ''success'', message = Some ''Buku berhasil ditambahkan'',
          data = DataBookId dune_id, httpCode = 201\<rparr>,
    [(dune_id,
      dune @
      [(''finished'', JBool True), (''insertedAt'', JStr ''2024-01-01T00:00:00.000Z''),
       (''updatedAt'', JStr ''2024-01-01T00:00:00.001Z''), (''id'', JStr dune_id)])]) \<and>
   getHandler \<lparr>payload = [], bookId = Some dune_id, query = []\<rparr>
     [(dune_id,
       dune @
       [(''finished'', JBool True), (''insertedAt'', JStr ''2024-01-01T00:00:00.000Z''),
        (''updatedAt'', JStr ''2024-01-01T00:00:00.001Z''), (''id'', JStr dune_id)])] =
   Some \<lparr>status = ''success'', message = None,
         data = DataBook (Book (dune @
           [(''finished'', JBool True), (''insertedAt'', JStr ''2024-01-01T00:00:00.000Z''),
            (''updatedAt'', JStr ''2024-01-01T00:00:00.001Z''), (''id'', JStr dune_id)])),
         httpCode = 200\<rparr>"
  by (simp add: example_defs manager_defs)

text \<open>
  Claim C8. A detail request for an id under which no book is stored answers 404, for
  arbitrary id strings, and one for a stored id answers 200 with the book.

  The code does so for every id but \<^verbatim>\<open>all\<close> (\<open>get_by_id\<close>): \<^verbatim>\<open>getBooks\<close> takes that
  string for its own default and returns the array of all books, which is not
  \<^verbatim>\<open>undefined\<close>, so the handler answers 200 with the array as the book. The sibling
  \<^verbatim>\<open>#findBook\<close> asks \<^verbatim>\<open>hasOwnProperty\<close> first, and Delete of the same id answers 404.
\<close>

theorem detail_of_all_is_found:
  "\<not> hasOwnProperty dune_shelf ''all'' \<and>
   getHandler \<lparr>payload = [], bookId = Some ''all'', query = []\<rparr> dune_shelf =
     Some \<lparr>status = ''success'', message = None, data = DataBook (Books [dune_stored]),
           httpCode = 200\<rparr> \<and>
   deleteHandler \<lparr>payload = [], bookId = Some ''all'', query = []\<rparr> dune_shelf =
     (Some \<lparr>status = ''fail'', message = Some ''Buku gagal dihapus. Id tidak ditemukan'',
            data = NoData, httpCode = 404\<rparr>, dune_shelf)"
  by (simp add: example_defs manager_defs)



text \<open>
  Claim C10. In every shelf that a sequence of Create, Retrieve, Update and Delete
  operations leads to from the empty shelf, each stored book's \<open>id\<close> property is the key
  it is stored under; and no further operation changes the \<open>id\<close> or the \<open>insertedAt\<close>
  of a book that is stored before and after it.
\<close>

theorem id_is_key_and_fixed:
  assumes "run_all xs [] = Some s"
  shows "(\<forall>k b. map_of s k = Some b \<longrightarrow> get b ''id'' = JStr k) \<and>
         (\<forall>x k b b'. admissible s x \<and> map_of s k = Some b \<and> map_of (run x s) k = Some b' \<longrightarrow>
            get b' ''id'' = get b ''id'' \<and> get b' ''insertedAt'' = get b ''insertedAt'')"
proof -
  have "keyed []" by (simp add: keyed_def)
  with assms have k: "keyed s" by (rule keyed_run_all [rotated])
  then show ?thesis using run_keeps [OF k] by (auto simp: keyed_def)
qed

theorem id_is_key_and_fixed_witness:
  "run_all [Create dune_id ''2024-01-01T00:00:00.000Z'' ''2024-01-01T00:00:00.000Z''
              \<lparr>payload = dune, bookId = None, query = []\<rparr>] [] = Some dune_shelf \<and>
   map_of dune_shelf dune_id = Some dune_stored \<and>
   get dune_stored ''id'' = JStr dune_id \<and>
   map_of (run (Update ''2024-01-02T00:00:00.000Z''
                  \<lparr>payload = [(''name'', JStr ''Dune Messiah'')], bookId = Some dune_id, query = []\<rparr>)
             dune_shelf) dune_id = Some dune_updated \<and>
   get dune_updated ''id'' = get dune_stored ''id'' \<and>
   get dune_updated ''insertedAt'' = get dune_stored ''insertedAt''"
proof -
  let ?u = "Update ''2024-01-02T00:00:00.000Z''
              \<lparr>payload = [(''name'', JStr ''Dune Messiah'')], bookId = Some dune_id, query = []\<rparr>"
  have r: "run_all [Create dune_id ''2024-01-01T00:00:00.000Z'' ''2024-01-01T00:00:00.000Z''
              \<lparr>payload = dune, bookId = None, query = []\<rparr>] [] = Some dune_shelf"
    by (simp add: is_nanoid_def example_defs manager_defs)
  have m: "map_of dune_shelf dune_id = Some dune_stored" by (simp add: dune_shelf_def)
  have u: "map_of (run ?u dune_shelf) dune_id = Some dune_updated"
    by (simp add: example_defs manager_defs)
  have a: "admissible dune_shelf ?u" by simp
  from id_is_key_and_fixed [OF r] m have i: "get dune_stored ''id'' = JStr dune_id" by blast
  from id_is_key_and_fixed [OF r] a m u
  have k: "get dune_updated ''id'' = get dune_stored ''id'' \<and>
           get dune_updated ''insertedAt'' = get dune_stored ''insertedAt''" by blast
  from r m i u k show ?thesis by blast
qed

end
